theory Spec2Isabelle
  imports Main
begin

section \<open>Data model\<close>

text \<open>
  Timestamps are JavaScript \<open>Date\<close> values, taken as milliseconds since the epoch.
  The \<open>users\<close> table of \<open>database/schema.ts\<close> is a list of rows; a nullable
  column is an \<open>option\<close>. Identifiers are strings (the syntax of a uuid is not
  modelled). The column \<open>login_attempts\<close> is an integer the code only ever resets
  or increments by one; it is taken as an unbounded \<open>int\<close>.
\<close>

type_synonym timestamp = int

record user =
  user_id :: string
  email :: string
  username :: string
  firstName :: string
  lastName :: string
  password :: string
  role :: string
  profilePicture :: "string option"
  isActive :: bool
  isEmailVerified :: bool
  emailVerificationToken :: "string option"
  passwordResetToken :: "string option"
  passwordResetExpires :: "timestamp option"
  lastLoginAt :: "timestamp option"
  loginAttempts :: "int option"
  lockUntil :: "timestamp option"
  twoFactorSecret :: "string option"
  isTwoFactorEnabled :: bool
  createdAt :: timestamp
  updatedAt :: timestamp

text \<open>
  The state the services act on: the table, and the number of clock readings taken so
  far. The clock itself is a parameter \<open>clk\<close>: its \<open>n\<close>-th reading is \<open>clk n\<close>.
  Every \<open>new Date()\<close> and \<open>Date.now()\<close> of the source is one reading.
\<close>

record world =
  users :: "user list"
  ticks :: nat

type_synonym clock = "nat \<Rightarrow> timestamp"

definition new_Date :: "clock \<Rightarrow> world \<Rightarrow> timestamp \<times> world" where
  "new_Date clk w = (clk (ticks w), w\<lparr>ticks := Suc (ticks w)\<rparr>)"

text \<open>
  Exceptions of the framework and of the libraries, as values. \<open>DatabaseError\<close> carries
  the driver's error code; \<open>JsonWebTokenError\<close> is what \<open>jwtService.verify\<close> throws;
  \<open>Error\<close> is a plain JavaScript error.
\<close>

datatype jwt_failure = Malformed | Expired | SignatureMismatch

datatype exception =
    UnauthorizedException string
  | BadRequestException string
  | NotFoundException string
  | ConflictException string
  | JsonWebTokenError jwt_failure
  | DatabaseError string
  | Error string

subsection \<open>Strings\<close>

text \<open>
  \<open>String.prototype.toLowerCase\<close> on the ASCII letters; every other character is
  left as it is.
\<close>

definition lower_char :: "char \<Rightarrow> char" where
  "lower_char c =
     (if (65::nat) \<le> of_char c \<and> of_char c \<le> (90::nat)
      then char_of (of_char c + (32::nat)) else c)"

definition toLowerCase :: "string \<Rightarrow> string" where
  "toLowerCase s = map lower_char s"

text \<open>JavaScript truthiness of an optional string: \<open>undefined\<close> and \<open>''\<close> are falsy.\<close>

fun truthy :: "string option \<Rightarrow> bool" where
  "truthy None = False"
| "truthy (Some s) = (s \<noteq> [])"

subsection \<open>Queries on the table\<close>

text \<open>
  \<open>const [row] = await db.select().from(users).where(p)\<close>: the first row that
  satisfies \<open>p\<close>, or \<open>undefined\<close>.
\<close>

definition select_where :: "(user \<Rightarrow> bool) \<Rightarrow> user list \<Rightarrow> user list" where
  "select_where p rows = filter p rows"

definition first_row :: "user list \<Rightarrow> user option" where
  "first_row rows = (case rows of [] \<Rightarrow> None | r # _ \<Rightarrow> Some r)"

text \<open>
  \<open>db.update(users).set(f).where(p)\<close>: every row that satisfies \<open>p\<close> is
  replaced by \<open>f\<close> of it. The unique constraints are checked where a key column
  can change (\<open>update_returning\<close> below).
\<close>

definition update_where :: "(user \<Rightarrow> bool) \<Rightarrow> (user \<Rightarrow> user) \<Rightarrow> user list \<Rightarrow> user list" where
  "update_where p f rows = map (\<lambda>r. if p r then f r else r) rows"

section \<open>UsersService: the login attempt tracker\<close>

definition maxLoginAttempts :: int where
  "maxLoginAttempts = 5"

definition lockTime :: int where
  "lockTime = 2 * 60 * 60 * 1000"

text \<open>
  \<open>updateLoginAttempts(email, reset)\<close>. With \<open>reset\<close> the update is issued without
  a lookup. Otherwise the row is fetched by the email as given; \<open>undefined\<close> ends the
  call, and \<open>user.loginAttempts || 0\<close> reads \<open>null\<close> as \<open>0\<close>. The clock is read
  for \<open>lockUntil\<close> only when the threshold is reached.
\<close>

definition reset_fields :: "timestamp \<Rightarrow> timestamp \<Rightarrow> user \<Rightarrow> user" where
  "reset_fields t1 t2 r =
     r\<lparr>loginAttempts := Some 0, lockUntil := None, lastLoginAt := Some t1, updatedAt := t2\<rparr>"

definition failure_fields :: "int \<Rightarrow> timestamp option \<Rightarrow> timestamp \<Rightarrow> user \<Rightarrow> user" where
  "failure_fields attempts lock t2 r =
     r\<lparr>loginAttempts := Some attempts, lockUntil := lock, updatedAt := t2\<rparr>"

definition updateLoginAttempts :: "clock \<Rightarrow> string \<Rightarrow> bool \<Rightarrow> world \<Rightarrow> world" where
  "updateLoginAttempts clk em reset w =
     (if reset then
        (case new_Date clk w of (t1, w1) \<Rightarrow>
         case new_Date clk w1 of (t2, w2) \<Rightarrow>
           w2\<lparr>users := update_where (\<lambda>r. email r = em) (reset_fields t1 t2) (users w2)\<rparr>)
      else
        (case first_row (select_where (\<lambda>r. email r = em) (users w)) of
           None \<Rightarrow> w
         | Some usr \<Rightarrow>
             (let attempts = (case loginAttempts usr of None \<Rightarrow> 0 | Some n \<Rightarrow> n) + 1 in
              case (if attempts \<ge> maxLoginAttempts
                    then (case new_Date clk w of (t1, w1) \<Rightarrow> (Some (t1 + lockTime), w1))
                    else (None, w)) of
                (lock, w1) \<Rightarrow>
              case new_Date clk w1 of (t2, w2) \<Rightarrow>
                w2\<lparr>users := update_where (\<lambda>r. email r = em)
                                (failure_fields attempts lock t2) (users w2)\<rparr>)))"

text \<open>
  \<open>isAccountLocked(email)\<close>: a \<open>Date\<close> object is always truthy, so \<open>!user.lockUntil\<close>
  holds exactly for \<open>null\<close>. An expired lock is cleared through the reset path of
  \<open>updateLoginAttempts\<close>.
\<close>

definition isAccountLocked :: "clock \<Rightarrow> string \<Rightarrow> world \<Rightarrow> bool \<times> world" where
  "isAccountLocked clk em w =
     (case first_row (select_where (\<lambda>r. email r = em) (users w)) of
        None \<Rightarrow> (False, w)
      | Some usr \<Rightarrow>
          (case lockUntil usr of
             None \<Rightarrow> (False, w)
           | Some lu \<Rightarrow>
               (case new_Date clk w of (now, w1) \<Rightarrow>
                  if lu > now then (True, w1)
                  else (False, updateLoginAttempts clk em True w1))))"

section \<open>UsersService: lookups and the response object\<close>

text \<open>
  \<open>UserResponseDto\<close>. \<open>transformToResponseDto\<close> runs \<open>plainToClass\<close> with
  \<open>excludeExtraneousValues\<close>, which keeps the properties marked \<open>@Expose\<close> and no
  other: the properties marked \<open>@Exclude\<close> (\<open>password\<close>, \<open>passwordResetToken\<close>,
  \<open>passwordResetExpires\<close>, \<open>loginAttempts\<close>, \<open>lockUntil\<close> and the two secrets) are
  \<open>undefined\<close> on every object it returns. Of these the record carries the two
  that \<open>AuthService.resetPassword\<close> reads. \<open>fullName\<close> is computed from the first
  and the last name.
\<close>

record UserResponseDto =
  id_r :: string
  email_r :: string
  username_r :: string
  firstName_r :: string
  lastName_r :: string
  fullName_r :: string
  role_r :: string
  profilePicture_r :: "string option"
  isActive_r :: bool
  isEmailVerified_r :: bool
  isTwoFactorEnabled_r :: bool
  lastLoginAt_r :: "timestamp option"
  createdAt_r :: timestamp
  updatedAt_r :: timestamp
  passwordResetToken_r :: "string option"
  passwordResetExpires_r :: "timestamp option"

definition transformToResponseDto :: "user \<Rightarrow> UserResponseDto" where
  "transformToResponseDto r =
     \<lparr>id_r = user_id r, email_r = email r, username_r = username r,
      firstName_r = firstName r, lastName_r = lastName r,
      fullName_r = firstName r @ '' '' @ lastName r,
      role_r = role r, profilePicture_r = profilePicture r, isActive_r = isActive r,
      isEmailVerified_r = isEmailVerified r, isTwoFactorEnabled_r = isTwoFactorEnabled r,
      lastLoginAt_r = lastLoginAt r, createdAt_r = createdAt r, updatedAt_r = updatedAt r,
      passwordResetToken_r = None, passwordResetExpires_r = None\<rparr>"

definition findUserById :: "string \<Rightarrow> user list \<Rightarrow> exception + user" where
  "findUserById i rows =
     (case first_row (select_where (\<lambda>r. user_id r = i) rows) of
        None \<Rightarrow> Inl (NotFoundException ''User not found'')
      | Some usr \<Rightarrow> Inr usr)"

definition findOne :: "string \<Rightarrow> user list \<Rightarrow> exception + UserResponseDto" where
  "findOne i rows =
     (case findUserById i rows of
        Inl e \<Rightarrow> Inl e
      | Inr usr \<Rightarrow> Inr (transformToResponseDto usr))"

definition findByEmail :: "string \<Rightarrow> user list \<Rightarrow> UserResponseDto option" where
  "findByEmail em rows =
     (case first_row (select_where (\<lambda>r. email r = toLowerCase em) rows) of
        None \<Rightarrow> None
      | Some usr \<Rightarrow> Some (transformToResponseDto usr))"

section \<open>UsersService: create and update\<close>

text \<open>
  \<open>checkUserExists(email?, username?, excludeId?)\<close>. A condition is pushed for each
  truthy argument, on the lower-cased value; the conditions are joined by \<open>or\<close>, and
  \<open>excludeId\<close>, when truthy, is added by \<open>and\<close>. \<open>email?.toLowerCase()\<close> of
  \<open>undefined\<close> is \<open>undefined\<close>, which equals no stored string.
\<close>

definition eq_lowered :: "string option \<Rightarrow> string \<Rightarrow> bool" where
  "eq_lowered arg stored = (case arg of None \<Rightarrow> False | Some s \<Rightarrow> stored = toLowerCase s)"

definition checkUserExists ::
  "string option \<Rightarrow> string option \<Rightarrow> string option \<Rightarrow> user list \<Rightarrow> exception + unit" where
  "checkUserExists em un excludeId rows =
     (if \<not> truthy em \<and> \<not> truthy un then Inr ()
      else
        (case first_row (select_where
                (\<lambda>r. ((truthy em \<and> eq_lowered em (email r)) \<or>
                       (truthy un \<and> eq_lowered un (username r))) \<and>
                      (if truthy excludeId then Some (user_id r) \<noteq> excludeId else True))
                rows) of
           None \<Rightarrow> Inr ()
         | Some existingUser \<Rightarrow>
             if eq_lowered em (email existingUser)
             then Inl (ConflictException ''User with this email already exists'')
             else if eq_lowered un (username existingUser)
             then Inl (ConflictException ''User with this username already exists'')
             else Inr ()))"

text \<open>
  The unique constraints of the table (\<open>id\<close> is the primary key, \<open>email\<close> and
  \<open>username\<close> are \<open>unique()\<close>) compare the stored strings as they are. A statement
  that would break one fails with the driver's error code \<open>23505\<close> and writes nothing.
  An insert is checked against every row. An update breaks a constraint when a row it
  writes changes its key to a value that another row of the resulting table carries.
\<close>

definition insert_returning :: "user \<Rightarrow> user list \<Rightarrow> exception + user list" where
  "insert_returning r rows =
     (if user_id r \<in> user_id ` set rows \<or> email r \<in> email ` set rows \<or>
         username r \<in> username ` set rows
      then Inl (DatabaseError ''23505'')
      else Inr (rows @ [r]))"

definition key_clash ::
  "(user \<Rightarrow> string) \<Rightarrow> (user \<Rightarrow> bool) \<Rightarrow> (user \<Rightarrow> user) \<Rightarrow> user list \<Rightarrow> bool" where
  "key_clash k p f rows =
     list_ex (\<lambda>old. p old \<and> k (f old) \<noteq> k old \<and>
                    k (f old) \<in> k ` (set (update_where p f rows) - {f old})) rows"

definition update_returning ::
  "string \<Rightarrow> (user \<Rightarrow> user) \<Rightarrow> user list \<Rightarrow> exception + (user list \<times> user list)" where
  "update_returning i f rows =
     (if key_clash email (\<lambda>r. user_id r = i) f rows \<or>
         key_clash username (\<lambda>r. user_id r = i) f rows
      then Inl (DatabaseError ''23505'')
      else (let rows' = update_where (\<lambda>r. user_id r = i) f rows
            in Inr (rows', select_where (\<lambda>r. user_id r = i) rows')))"

text \<open>
  The catch block of \<open>create\<close> and of \<open>update\<close>: error code \<open>23505\<close> becomes a
  \<open>ConflictException\<close>, anything else is thrown again. The error is read as the
  block reads it, by its \<open>code\<close> property.
\<close>

definition catch_unique :: "exception \<Rightarrow> exception" where
  "catch_unique err =
     (case err of
        DatabaseError code \<Rightarrow>
          if code = ''23505''
          then ConflictException ''User with this email or username already exists''
          else err
      | _ \<Rightarrow> err)"



definition stored_lower :: "user \<Rightarrow> bool" where
  "stored_lower r = (email r = toLowerCase (email r) \<and> username r = toLowerCase (username r))"

record CreateUserDto =
  email_c :: string
  username_c :: string
  firstName_c :: string
  lastName_c :: string
  password_c :: string
  role_c :: "string option"
  profilePicture_c :: "string option"

text \<open>
  What the environment supplies: the \<open>bcrypt\<close> and \<open>jsonwebtoken\<close> libraries, the
  values of \<open>AppConfig\<close>, and the database engine's reading of the raw SQL text that
  \<open>FilterUtil\<close> builds.
\<close>

datatype jwt_claims =
    JwtPayload string string string string
  | RefreshTokenPayload string int

fun sub :: "jwt_claims \<Rightarrow> string" where
  "sub (JwtPayload i _ _ _) = i"
| "sub (RefreshTokenPayload i _) = i"

datatype sql_cond =
    RoleEq string
  | IsActiveEq bool
  | IsEmailVerifiedEq bool
  | SearchLike string
  | CreatedFrom timestamp
  | CreatedTo timestamp

record env =
  bcrypt_hash :: "string \<Rightarrow> nat \<Rightarrow> string"
  bcrypt_compare :: "string \<Rightarrow> string \<Rightarrow> bool"
  jwt_signAsync :: "jwt_claims \<Rightarrow> string \<Rightarrow> string \<Rightarrow> string"
  jwt_verify :: "string \<Rightarrow> string \<Rightarrow> jwt_failure + jwt_claims"
  jwtSecret :: string
  jwtRefreshSecret :: string
  jwtExpiresIn :: string
  jwtRefreshExpiresIn :: string
  bcryptRounds :: nat
  sql_where :: "sql_cond list \<Rightarrow> user \<Rightarrow> bool"
  sql_orderBy :: "string \<times> string \<Rightarrow> user list \<Rightarrow> user list"

definition saltRounds :: nat where
  "saltRounds = 12"

text \<open>
  \<open>create\<close>: the pre-check, then the insert inside \<open>try\<close>. \<open>newId\<close> is the uuid
  the database draws for the row; the column defaults are written out, and the
  database's \<open>now()\<close> for \<open>created_at\<close> and \<open>updated_at\<close> is one clock reading.
  The part after the pre-check is \<open>create_insert\<close>, so that it can be run on a table
  another request has written to in between.
\<close>

definition new_row :: "string \<Rightarrow> string \<Rightarrow> timestamp \<Rightarrow> CreateUserDto \<Rightarrow> user" where
  "new_row newId hashedPassword now dto =
     \<lparr>user_id = newId, email = email_c dto, username = username_c dto,
      firstName = firstName_c dto, lastName = lastName_c dto, password = hashedPassword,
      role = (case role_c dto of None \<Rightarrow> ''user'' | Some v \<Rightarrow> v),
      profilePicture = profilePicture_c dto, isActive = True, isEmailVerified = False,
      emailVerificationToken = None, passwordResetToken = None,
      passwordResetExpires = None, lastLoginAt = None, loginAttempts = Some 0,
      lockUntil = None, twoFactorSecret = None, isTwoFactorEnabled = False,
      createdAt = now, updatedAt = now\<rparr>"

definition create_insert ::
  "clock \<Rightarrow> env \<Rightarrow> string \<Rightarrow> CreateUserDto \<Rightarrow> world \<Rightarrow> (exception + UserResponseDto) \<times> world" where
  "create_insert clk ev newId dto w =
     (let hashedPassword = bcrypt_hash ev (password_c dto) saltRounds in
      case new_Date clk w of (now, w1) \<Rightarrow>
        (let newUser = new_row newId hashedPassword now dto in
         case insert_returning newUser (users w1) of
           Inl err \<Rightarrow> (Inl (catch_unique err), w1)
         | Inr rows' \<Rightarrow> (Inr (transformToResponseDto newUser), w1\<lparr>users := rows'\<rparr>)))"

definition create ::
  "clock \<Rightarrow> env \<Rightarrow> string \<Rightarrow> CreateUserDto \<Rightarrow> world \<Rightarrow> (exception + UserResponseDto) \<times> world" where
  "create clk ev newId dto w =
     (case checkUserExists (Some (email_c dto)) (Some (username_c dto)) None (users w) of
        Inl e \<Rightarrow> (Inl e, w)
      | Inr _ \<Rightarrow> create_insert clk ev newId dto w)"

text \<open>
  \<open>UpdateUserDto\<close>: every property is optional (\<open>None\<close> is \<open>undefined\<close>, which
  \<open>set\<close> skips); the two reset properties may also be \<open>null\<close>.
\<close>

record UpdateUserDto =
  email_u :: "string option"
  username_u :: "string option"
  firstName_u :: "string option"
  lastName_u :: "string option"
  role_u :: "string option"
  profilePicture_u :: "string option"
  isActive_u :: "bool option"
  isEmailVerified_u :: "bool option"
  isTwoFactorEnabled_u :: "bool option"
  password_u :: "string option"
  passwordResetToken_u :: "string option option"
  passwordResetExpires_u :: "timestamp option option"

definition or_keep :: "'a option \<Rightarrow> 'a \<Rightarrow> 'a" where
  "or_keep v old = (case v of None \<Rightarrow> old | Some x \<Rightarrow> x)"

definition set_fields :: "UpdateUserDto \<Rightarrow> timestamp \<Rightarrow> user \<Rightarrow> user" where
  "set_fields dto now r =
     r\<lparr>email := or_keep (email_u dto) (email r),
       username := or_keep (username_u dto) (username r),
       firstName := or_keep (firstName_u dto) (firstName r),
       lastName := or_keep (lastName_u dto) (lastName r),
       role := or_keep (role_u dto) (role r),
       profilePicture := (case profilePicture_u dto of None \<Rightarrow> profilePicture r | Some v \<Rightarrow> Some v),
       isActive := or_keep (isActive_u dto) (isActive r),
       isEmailVerified := or_keep (isEmailVerified_u dto) (isEmailVerified r),
       isTwoFactorEnabled := or_keep (isTwoFactorEnabled_u dto) (isTwoFactorEnabled r),
       password := or_keep (password_u dto) (password r),
       passwordResetToken := or_keep (passwordResetToken_u dto) (passwordResetToken r),
       passwordResetExpires := or_keep (passwordResetExpires_u dto) (passwordResetExpires r),
       updatedAt := now\<rparr>"

text \<open>
  \<open>update(id, dto)\<close>. \<open>update_write\<close> is the part after the checks (the \<open>try\<close>
  block); \<open>const [updatedUser]\<close> of an empty result is \<open>undefined\<close>, here \<open>None\<close>.
\<close>

definition update_write ::
  "clock \<Rightarrow> string \<Rightarrow> UpdateUserDto \<Rightarrow> world \<Rightarrow> (exception + UserResponseDto option) \<times> world" where
  "update_write clk i dto w =
     (case new_Date clk w of (now, w1) \<Rightarrow>
        (case update_returning i (set_fields dto now) (users w1) of
           Inl err \<Rightarrow> (Inl (catch_unique err), w1)
         | Inr (rows', updated) \<Rightarrow>
             (Inr (map_option transformToResponseDto (first_row updated)),
              w1\<lparr>users := rows'\<rparr>)))"

definition update ::
  "clock \<Rightarrow> string \<Rightarrow> UpdateUserDto \<Rightarrow> world \<Rightarrow> (exception + UserResponseDto option) \<times> world" where
  "update clk i dto w =
     (case findUserById i (users w) of
        Inl e \<Rightarrow> (Inl e, w)
      | Inr _ \<Rightarrow>
          (case (if truthy (email_u dto) \<or> truthy (username_u dto)
                 then checkUserExists (email_u dto) (username_u dto) (Some i) (users w)
                 else Inr ()) of
             Inl e \<Rightarrow> (Inl e, w)
           | Inr _ \<Rightarrow> update_write clk i dto w))"

section \<open>UsersService: the paginated listing\<close>

text \<open>
  \<open>QueryUserDto\<close>; page and limit are numbers, for which \<open>undefined\<close> and \<open>0\<close>
  are falsy.
\<close>

record QueryUserDto =
  page_q :: "int option"
  limit_q :: "int option"
  search_q :: "string option"
  role_q :: "string option"
  isActive_q :: "bool option"
  isEmailVerified_q :: "bool option"
  dateFrom_q :: "timestamp option"
  dateTo_q :: "timestamp option"
  sortBy_q :: "string option"
  sortOrder_q :: "string option"

record Pagination =
  page_n :: int
  limit_n :: int
  offset_n :: int
  sortBy_n :: "string option"
  sortOrder_n :: string

definition or_default :: "int option \<Rightarrow> int \<Rightarrow> int" where
  "or_default v d = (case v of None \<Rightarrow> d | Some n \<Rightarrow> if n = 0 then d else n)"

definition allowedSortFields :: "string list" where
  "allowedSortFields =
     [''id'', ''email'', ''username'', ''firstName'', ''lastName'', ''role'', ''isActive'',
      ''isEmailVerified'', ''createdAt'', ''updatedAt'', ''lastLoginAt'']"

definition isValidSortField :: "string \<Rightarrow> bool" where
  "isValidSortField field = (field \<in> set allowedSortFields)"

definition validateAndNormalizePagination :: "QueryUserDto \<Rightarrow> exception + Pagination" where
  "validateAndNormalizePagination options =
     (let page = max 1 (or_default (page_q options) 1);
          limit = min (max 1 (or_default (limit_q options) 10)) 100;
          offset = (page - 1) * limit;
          sortOrder = (if sortOrder_q options = Some ''desc'' then ''desc'' else ''asc'')
      in case sortBy_q options of
           None \<Rightarrow>
             Inr \<lparr>page_n = page, limit_n = limit, offset_n = offset,
                  sortBy_n = None, sortOrder_n = sortOrder\<rparr>
         | Some field \<Rightarrow>
             if field \<noteq> [] \<and> \<not> isValidSortField field
             then Inl (BadRequestException (''Invalid sort field: '' @ field))
             else Inr \<lparr>page_n = page, limit_n = limit, offset_n = offset,
                       sortBy_n = Some field, sortOrder_n = sortOrder\<rparr>)"

definition validateDateRange :: "timestamp option \<Rightarrow> timestamp option \<Rightarrow> exception + unit" where
  "validateDateRange dateFrom dateTo =
     (case (dateFrom, dateTo) of
        (Some f, Some t) \<Rightarrow>
          if f > t then Inl (Error ''Date from cannot be greater than date to'') else Inr ()
      | _ \<Rightarrow> Inr ())"

text \<open>\<open>String.prototype.trim\<close> for the ASCII white space.\<close>

definition is_space :: "char \<Rightarrow> bool" where
  "is_space c = (c \<in> {CHR '' '', CHR 0x09, CHR 0x0A, CHR 0x0B, CHR 0x0C, CHR 0x0D})"

definition trim :: "string \<Rightarrow> string" where
  "trim s = rev (dropWhile is_space (rev (dropWhile is_space s)))"

definition sanitizeSearchTerm :: "string option \<Rightarrow> string option" where
  "sanitizeSearchTerm search =
     (if \<not> truthy search then None
      else
        (let sanitized =
               trim (concat (map (\<lambda>c. if c \<in> {CHR ''%'', CHR ''_'', CHR 0x5C}
                                       then [CHR 0x5C, c] else [c])
                                 (case search of None \<Rightarrow> [] | Some s \<Rightarrow> s)))
         in if length sanitized > 0 then Some sanitized else None))"

definition buildUserFilters ::
  "string option \<Rightarrow> bool option \<Rightarrow> bool option \<Rightarrow> string option \<Rightarrow>
   timestamp option \<Rightarrow> timestamp option \<Rightarrow> sql_cond list" where
  "buildUserFilters rl act ver search dateFrom dateTo =
     (case rl of
        None \<Rightarrow> []
      | Some v \<Rightarrow> if v \<in> {''user'', ''admin'', ''moderator''} then [RoleEq v] else []) @
     (case act of None \<Rightarrow> [] | Some b \<Rightarrow> [IsActiveEq b]) @
     (case ver of None \<Rightarrow> [] | Some b \<Rightarrow> [IsEmailVerifiedEq b]) @
     (case search of
        None \<Rightarrow> []
      | Some v \<Rightarrow>
          if v \<noteq> [] \<and> length (trim v) > 0
          then [SearchLike (''%'' @ toLowerCase (trim v) @ ''%'')] else []) @
     (case dateFrom of None \<Rightarrow> [] | Some d \<Rightarrow> [CreatedFrom d]) @
     (case dateTo of None \<Rightarrow> [] | Some d \<Rightarrow> [CreatedTo d])"

definition convertToDbField :: "string \<Rightarrow> string" where
  "convertToDbField field =
     (case map_of
        [(''firstName'', ''first_name''), (''lastName'', ''last_name''),
         (''isActive'', ''is_active''), (''isEmailVerified'', ''is_email_verified''),
         (''isTwoFactorEnabled'', ''is_two_factor_enabled''),
         (''profilePicture'', ''profile_picture''), (''lastLoginAt'', ''last_login_at''),
         (''createdAt'', ''created_at''), (''updatedAt'', ''updated_at'')] field of
        None \<Rightarrow> field
      | Some v \<Rightarrow> v)"

definition buildSortCondition :: "string option \<Rightarrow> string \<Rightarrow> string \<times> string" where
  "buildSortCondition sortBy sortOrder =
     (case sortBy of
        None \<Rightarrow> (''created_at'', ''DESC'')
      | Some field \<Rightarrow>
          if field = [] then (''created_at'', ''DESC'')
          else if field \<notin> set allowedSortFields then (''created_at'', ''DESC'')
          else if sortOrder = ''desc'' then (convertToDbField field, ''DESC'')
          else (convertToDbField field, ''ASC''))"

record PaginatedUserResponseDto =
  data_p :: "UserResponseDto list"
  total_p :: int
  page_p :: int
  limit_p :: int
  totalPages_p :: int
  hasNextPage_p :: bool
  hasPreviousPage_p :: bool

definition paginated ::
  "UserResponseDto list \<Rightarrow> int \<Rightarrow> int \<Rightarrow> int \<Rightarrow> PaginatedUserResponseDto" where
  "paginated dat total' page limit =
     (let totalPages = (total' + limit - 1) div limit in
      \<lparr>data_p = dat, total_p = total', page_p = page, limit_p = limit,
       totalPages_p = totalPages, hasNextPage_p = (page < totalPages),
       hasPreviousPage_p = (page > 1)\<rparr>)"

text \<open>
  \<open>findAll\<close>. The select list of the data query names the thirteen columns that
  \<open>transformToResponseDto\<close> exposes, so the projection is not written out. The where
  clause is absent when no filter is built.
\<close>

definition findAll :: "env \<Rightarrow> QueryUserDto \<Rightarrow> user list \<Rightarrow> exception + PaginatedUserResponseDto" where
  "findAll ev queryDto rows =
     (case validateAndNormalizePagination queryDto of
        Inl e \<Rightarrow> Inl e
      | Inr pg \<Rightarrow>
          (case validateDateRange (dateFrom_q queryDto) (dateTo_q queryDto) of
             Inl e \<Rightarrow> Inl e
           | Inr _ \<Rightarrow>
               (let filterConditions =
                      buildUserFilters (role_q queryDto) (isActive_q queryDto)
                        (isEmailVerified_q queryDto) (sanitizeSearchTerm (search_q queryDto))
                        (dateFrom_q queryDto) (dateTo_q queryDto);
                    matching = (if length filterConditions > 0
                                then select_where (sql_where ev filterConditions) rows
                                else rows);
                    total' = int (length matching);
                    orderByClause = buildSortCondition (sortBy_n pg) (sortOrder_n pg);
                    userList = take (nat (limit_n pg))
                                 (drop (nat (offset_n pg)) (sql_orderBy ev orderByClause matching))
                in Inr (paginated (map transformToResponseDto userList) total'
                          (page_n pg) (limit_n pg)))))"

section \<open>AuthService\<close>

record LoginDto =
  email_l :: string
  password_l :: string

record tokens =
  accessToken :: string
  refreshToken :: string

record AuthResponse =
  user_a :: UserResponseDto
  accessToken_a :: string
  refreshToken_a :: string

record MessageResponse =
  message :: string

text \<open>
  \<open>generateTokens\<close> reads \<open>id\<close>, \<open>email\<close>, \<open>username\<close> and \<open>role\<close> of its
  argument, which is a table row in \<open>login\<close> and a response object elsewhere; the
  four values are its arguments here.
\<close>

definition generateTokens :: "env \<Rightarrow> string \<Rightarrow> string \<Rightarrow> string \<Rightarrow> string \<Rightarrow> tokens" where
  "generateTokens ev i em un rl =
     \<lparr>accessToken = jwt_signAsync ev (JwtPayload i em un rl) (jwtSecret ev) (jwtExpiresIn ev),
      refreshToken = jwt_signAsync ev (RefreshTokenPayload i 1) (jwtRefreshSecret ev)
                       (jwtRefreshExpiresIn ev)\<rparr>"

definition findUserForAuthentication :: "string \<Rightarrow> user list \<Rightarrow> user option" where
  "findUserForAuthentication em rows =
     first_row (select_where (\<lambda>r. email r = toLowerCase em) rows)"


definition login :: "clock \<Rightarrow> env \<Rightarrow> LoginDto \<Rightarrow> world \<Rightarrow> (exception + AuthResponse) \<times> world" where
  "login clk ev dto w =
     (case isAccountLocked clk (email_l dto) w of (isLocked, w1) \<Rightarrow>
        if isLocked
        then (Inl (UnauthorizedException
                ''Account is temporarily locked due to too many failed login attempts''), w1)
        else
          (case findUserForAuthentication (email_l dto) (users w1) of
             None \<Rightarrow>
               (Inl (UnauthorizedException ''Invalid credentials''),
                updateLoginAttempts clk (email_l dto) False w1)
           | Some usr \<Rightarrow>
               if \<not> bcrypt_compare ev (password_l dto) (password usr)
               then (Inl (UnauthorizedException ''Invalid credentials''),
                     updateLoginAttempts clk (email_l dto) False w1)
               else if \<not> isActive usr
               then (Inl (UnauthorizedException ''Account is deactivated''), w1)
               else
                 (let w2 = updateLoginAttempts clk (email_l dto) True w1;
                      tk = generateTokens ev (user_id usr) (email usr) (username usr) (role usr)
                  in case findOne (user_id usr) (users w2) of
                       Inl e \<Rightarrow> (Inl e, w2)
                     | Inr userResponse \<Rightarrow>
                         (Inr \<lparr>user_a = userResponse, accessToken_a = accessToken tk,
                                refreshToken_a = refreshToken tk\<rparr>, w2))))"



definition no_update :: UpdateUserDto where
  "no_update =
     \<lparr>email_u = None, username_u = None, firstName_u = None, lastName_u = None,
      role_u = None, profilePicture_u = None, isActive_u = None, isEmailVerified_u = None,
      isTwoFactorEnabled_u = None, password_u = None, passwordResetToken_u = None,
      passwordResetExpires_u = None\<rparr>"

definition reset_link_message :: MessageResponse where
  "reset_link_message =
     \<lparr>message = ''If the email exists, a password reset link has been sent''\<rparr>"

text \<open>
  \<open>forgotPassword\<close>; \<open>resetToken\<close> is the string \<open>generatePasswordResetToken\<close>
  draws from \<open>Math.random\<close>.
\<close>

definition forgotPassword ::
  "clock \<Rightarrow> string \<Rightarrow> string \<Rightarrow> world \<Rightarrow> (exception + MessageResponse) \<times> world" where
  "forgotPassword clk resetToken em w =
     (case findByEmail em (users w) of
        None \<Rightarrow> (Inr reset_link_message, w)
      | Some usr \<Rightarrow>
          (case new_Date clk w of (now, w1) \<Rightarrow>
             (let resetExpires = now + 3600000 in
              case update clk (id_r usr)
                     (no_update\<lparr>passwordResetToken_u := Some (Some resetToken),
                                passwordResetExpires_u := Some (Some resetExpires)\<rparr>) w1 of
                (Inl e, w2) \<Rightarrow> (Inl e, w2)
              | (Inr _, w2) \<Rightarrow> (Inr reset_link_message, w2))))"

definition no_query :: QueryUserDto where
  "no_query =
     \<lparr>page_q = None, limit_q = None, search_q = None, role_q = None, isActive_q = None,
      isEmailVerified_q = None, dateFrom_q = None, dateTo_q = None, sortBy_q = None,
      sortOrder_q = None\<rparr>"

text \<open>
  The callback of \<open>users.data.find\<close> in \<open>resetPassword\<close>: \<open>&&\<close> evaluates
  \<open>new Date()\<close> only for an element whose token equals the argument and whose
  expiry is set.
\<close>

fun find_reset_user ::
  "clock \<Rightarrow> string \<Rightarrow> UserResponseDto list \<Rightarrow> world \<Rightarrow> UserResponseDto option \<times> world" where
  "find_reset_user clk token [] w = (None, w)"
| "find_reset_user clk token (u # us) w =
     (if passwordResetToken_r u = Some token
      then (case passwordResetExpires_r u of
              None \<Rightarrow> find_reset_user clk token us w
            | Some ex \<Rightarrow>
                (case new_Date clk w of (now, w1) \<Rightarrow>
                   if ex > now then (Some u, w1) else find_reset_user clk token us w1))
      else find_reset_user clk token us w)"

definition resetPassword ::
  "clock \<Rightarrow> env \<Rightarrow> string \<Rightarrow> string \<Rightarrow> world \<Rightarrow> (exception + MessageResponse) \<times> world" where
  "resetPassword clk ev token newPassword w =
     (case findAll ev (no_query\<lparr>limit_q := Some 1000\<rparr>) (users w) of
        Inl e \<Rightarrow> (Inl e, w)
      | Inr found \<Rightarrow>
          (case find_reset_user clk token (data_p found) w of
             (None, w1) \<Rightarrow> (Inl (BadRequestException ''Invalid or expired reset token''), w1)
           | (Some usr, w1) \<Rightarrow>
               (case update clk (id_r usr)
                       (no_update\<lparr>password_u := Some (bcrypt_hash ev newPassword (bcryptRounds ev)),
                                  passwordResetToken_u := Some None,
                                  passwordResetExpires_u := Some None\<rparr>) w1 of
                  (Inl e, w2) \<Rightarrow> (Inl e, w2)
                | (Inr _, w2) \<Rightarrow> (Inr \<lparr>message = ''Password reset successfully''\<rparr>, w2))))"

section \<open>A concrete table, clock and environment\<close>

text \<open>
  One account, \<open>a@x.com\<close> with password \<open>Right1!\<close>, in the states the scenarios
  below start from; a clock that starts at \<open>1000\<close> and advances by one millisecond
  per reading; and stand-ins for the libraries: a hash that prefixes its input, and
  tokens that spell out the secret and the subject.
\<close>

definition clock0 :: clock where
  "clock0 n = 1000 + int n"

definition env0 :: env where
  "env0 =
     \<lparr>bcrypt_hash = (\<lambda>p _. ''h:'' @ p),
      bcrypt_compare = (\<lambda>p h. h = ''h:'' @ p),
      jwt_signAsync = (\<lambda>c secret _. secret @ '':'' @ sub c),
      jwt_verify = (\<lambda>tok secret. if tok = secret @ '':u1''
                                     then Inr (RefreshTokenPayload ''u1'' 1) else Inl Malformed),
      jwtSecret = ''s1'', jwtRefreshSecret = ''s2'', jwtExpiresIn = ''15m'',
      jwtRefreshExpiresIn = ''7d'', bcryptRounds = 12,
      sql_where = (\<lambda>_ _. True), sql_orderBy = (\<lambda>_ rows. rows)\<rparr>"

definition alice :: user where
  "alice =
     \<lparr>user_id = ''u1'', email = ''a@x.com'', username = ''alice'', firstName = ''Al'',
      lastName = ''Ice'', password = ''h:Right1!'', role = ''user'', profilePicture = None,
      isActive = True, isEmailVerified = True, emailVerificationToken = None,
      passwordResetToken = None, passwordResetExpires = None, lastLoginAt = None,
      loginAttempts = Some 0, lockUntil = None, twoFactorSecret = None,
      isTwoFactorEnabled = False, createdAt = 0, updatedAt = 0\<rparr>"

definition alice_locked :: user where
  "alice_locked = alice\<lparr>loginAttempts := Some 5, lockUntil := Some 7201000\<rparr>"

definition alice_expired :: user where
  "alice_expired = alice\<lparr>loginAttempts := Some 5, lockUntil := Some 500\<rparr>"

definition alice_failed3 :: user where
  "alice_failed3 = alice\<lparr>loginAttempts := Some 3\<rparr>"

definition alice_reset :: user where
  "alice_reset =
     alice\<lparr>passwordResetToken := Some ''tok'', passwordResetExpires := Some 3601000\<rparr>"

definition table :: "user \<Rightarrow> world" where
  "table r = \<lparr>users = [r], ticks = 0\<rparr>"






section \<open>Lookups in the table\<close>

lemma first_row_select_None:
  "x \<notin> k ` set rows \<Longrightarrow> first_row (select_where (\<lambda>r. k r = x) rows) = None"
  by (induction rows) (auto simp: first_row_def select_where_def)

lemma first_row_select_Some:
  "first_row (select_where p rows) = Some u \<Longrightarrow> u \<in> set rows \<and> p u"
  by (induction rows) (auto simp: first_row_def select_where_def split: if_splits)

lemma first_row_select_key:
  "distinct (map k rows) \<Longrightarrow> u \<in> set rows \<Longrightarrow>
   first_row (select_where (\<lambda>r. k r = k u) rows) = Some u"
  by (induction rows) (auto simp: first_row_def select_where_def)

lemma first_row_select_map:
  "(\<And>r. q (g r) = q r) \<Longrightarrow>
   first_row (select_where q (map g rows)) = map_option g (first_row (select_where q rows))"
  by (induction rows) (auto simp: first_row_def select_where_def)

lemma first_row_after_update:
  assumes "\<And>r. email (f r) = email r"
  shows "first_row (select_where (\<lambda>r. email r = x) (update_where (\<lambda>r. email r = em) f rows)) =
         map_option (\<lambda>r. if email r = em then f r else r)
           (first_row (select_where (\<lambda>r. email r = x) rows))"
  unfolding update_where_def
  by (rule first_row_select_map) (simp add: assms)

section \<open>Properties of the login attempt tracker\<close>

text \<open>
  C7. Recording a failed attempt for an email that no row carries returns the state it
  was given: no row is written and the clock is not read. The function has no error
  result.
\<close>

theorem updateLoginAttempts_unknown_email_noop:
  "em \<notin> email ` set (users w) \<Longrightarrow> updateLoginAttempts clk em False w = w"
  by (simp add: updateLoginAttempts_def first_row_select_None)

theorem updateLoginAttempts_unknown_email_noop_witness:
  "updateLoginAttempts clock0 ''b@x.com'' False (table alice) = table alice"
  using updateLoginAttempts_unknown_email_noop [of "''b@x.com''" "table alice" clock0]
  by (simp add: table_def alice_def)

lemma updateLoginAttempts_reset_users:
  "users (updateLoginAttempts clk em True w) =
     update_where (\<lambda>r. email r = em)
       (reset_fields (clk (ticks w)) (clk (Suc (ticks w)))) (users w)"
  by (simp add: updateLoginAttempts_def new_Date_def)

lemma isAccountLocked_expired:
  assumes "first_row (select_where (\<lambda>r. email r = em) (users w)) = Some u"
    and "lockUntil u = Some t" and "t \<le> clk (ticks w)"
  shows "isAccountLocked clk em w =
           (False, updateLoginAttempts clk em True (w\<lparr>ticks := Suc (ticks w)\<rparr>))"
  using assms by (simp add: isAccountLocked_def new_Date_def)

text \<open>
  C10. For an account of the table (emails are unique, as the table's constraint has
  it) whose \<open>lockUntil\<close> is set and not after the clock reading of the check,
  \<open>isAccountLocked\<close> answers \<open>false\<close>, and the account's row afterwards is the old
  row with \<open>loginAttempts = 0\<close>, \<open>lockUntil = null\<close> and also \<open>lastLoginAt\<close> set to
  the next clock reading (the one the reset path takes), although nobody logged in.
\<close>

theorem isAccountLocked_expired_sets_lastLoginAt:
  assumes "u \<in> set (users w)" and "distinct (map email (users w))"
    and "lockUntil u = Some t" and "t \<le> clk (ticks w)"
  shows "fst (isAccountLocked clk (email u) w) = False \<and>
         first_row (select_where (\<lambda>r. email r = email u)
             (users (snd (isAccountLocked clk (email u) w)))) =
           Some (u\<lparr>loginAttempts := Some 0, lockUntil := None,
                   lastLoginAt := Some (clk (Suc (ticks w))),
                   updatedAt := clk (Suc (Suc (ticks w)))\<rparr>)"
proof -
  have found: "first_row (select_where (\<lambda>r. email r = email u) (users w)) = Some u"
    by (rule first_row_select_key[where k = email, OF assms(2) assms(1)])
  have run: "isAccountLocked clk (email u) w =
      (False, updateLoginAttempts clk (email u) True (w\<lparr>ticks := Suc (ticks w)\<rparr>))"
    using found assms(3,4) by (rule isAccountLocked_expired)
  have keep: "\<And>t1 t2 r. email (reset_fields t1 t2 r) = email r"
    by (simp add: reset_fields_def)
  show ?thesis
    by (simp add: run updateLoginAttempts_reset_users first_row_after_update keep found
        reset_fields_def)
qed

theorem isAccountLocked_expired_sets_lastLoginAt_witness:
  "fst (isAccountLocked clock0 ''a@x.com'' (table alice_expired)) = False \<and>
   first_row (select_where (\<lambda>r. email r = ''a@x.com'')
       (users (snd (isAccountLocked clock0 ''a@x.com'' (table alice_expired))))) =
     Some (alice_expired\<lparr>loginAttempts := Some 0, lockUntil := None,
             lastLoginAt := Some 1001, updatedAt := 1002\<rparr>)"
  using isAccountLocked_expired_sets_lastLoginAt
    [of alice_expired "table alice_expired" 500 clock0]
  by (simp add: table_def alice_expired_def alice_def clock0_def)

section \<open>Login: the email as given and the email in lower case\<close>

lemma lower_char_idem: "lower_char (lower_char c) = lower_char c"
  by (simp add: lower_char_def)

lemma toLowerCase_idem: "toLowerCase (toLowerCase s) = toLowerCase s"
  by (simp add: toLowerCase_def lower_char_idem)

lemma isAccountLocked_no_row:
  "em \<notin> email ` set (users w) \<Longrightarrow> isAccountLocked clk em w = (False, w)"
  by (simp add: isAccountLocked_def first_row_select_None)

lemma no_row_for_case_variant:
  assumes "u \<in> set rows" and "distinct (map (toLowerCase \<circ> email) rows)"
    and "toLowerCase e = email u" and "e \<noteq> email u"
  shows "e \<notin> email ` set rows"
proof
  assume "e \<in> email ` set rows"
  then obtain r where r: "r \<in> set rows" "email r = e" by auto
  have inj: "inj_on (toLowerCase \<circ> email) (set rows)"
    using assms(2) by (simp add: distinct_map)
  have "toLowerCase (email u) = email u"
    using assms(3) toLowerCase_idem by metis
  then have "(toLowerCase \<circ> email) r = (toLowerCase \<circ> email) u"
    using r(2) assms(3) by simp
  then have "r = u" using inj r(1) assms(1) by (meson inj_onD)
  then show False using r(2) assms(4) by simp
qed

lemma distinct_emails:
  "distinct (map (toLowerCase \<circ> email) rows) \<Longrightarrow> distinct (map email rows)"
  by (metis distinct_map inj_on_imageI2 map_map distinct_map)

text \<open>
  C9. The table's emails are unique up to case, \<open>u\<close> is an account of it, and the email
  \<open>e\<close> of the attempt differs from the stored one but lower-cases to it (so the stored
  email is in lower case and \<open>e\<close> has an upper-case letter). With a password that
  does not verify, \<open>login\<close> fails with \<open>Invalid credentials\<close> and returns the state
  it was given: the lock check and the failure record look the email up as given and
  find no row, so no row is written, the account's \<open>loginAttempts\<close> and
  \<open>lockUntil\<close> among them; any number of such attempts in a row leaves the state
  as it was, so they never lock the account.
\<close>

theorem login_case_variant_not_recorded:
  assumes "u \<in> set (users w)"
    and "distinct (map (toLowerCase \<circ> email) (users w))"
    and "toLowerCase e = email u" and "e \<noteq> email u"
    and "\<not> bcrypt_compare ev pw (password u)"
  shows "login clk ev \<lparr>email_l = e, password_l = pw\<rparr> w =
           (Inl (UnauthorizedException ''Invalid credentials''), w) \<and>
         ((\<lambda>s. snd (login clk ev \<lparr>email_l = e, password_l = pw\<rparr> s)) ^^ n) w = w"
proof -
  have none: "e \<notin> email ` set (users w)"
    using assms(1-4) by (rule no_row_for_case_variant)
  have found: "findUserForAuthentication e (users w) = Some u"
    unfolding findUserForAuthentication_def assms(3)
    by (rule first_row_select_key[where k = email, OF distinct_emails[OF assms(2)] assms(1)])
  have unrecorded: "updateLoginAttempts clk e False w = w"
    by (simp add: updateLoginAttempts_def first_row_select_None[OF none])
  have once: "login clk ev \<lparr>email_l = e, password_l = pw\<rparr> w =
      (Inl (UnauthorizedException ''Invalid credentials''), w)"
    using assms(5) by (simp add: login_def isAccountLocked_no_row[OF none] found unrecorded)
  have "((\<lambda>s. snd (login clk ev \<lparr>email_l = e, password_l = pw\<rparr> s)) ^^ n) w = w"
    by (induction n) (simp_all add: once)
  then show ?thesis using once by simp
qed

lemma lower_a_x_com: "toLowerCase ''a@x.com'' = ''a@x.com''"
  by code_simp

lemma lower_b_x_com: "toLowerCase ''b@x.com'' = ''b@x.com''"
  by code_simp

lemma lower_A_x_com: "toLowerCase ''A@x.com'' = ''a@x.com''"
  by code_simp

theorem login_case_variant_not_recorded_witness:
  "login clock0 env0 \<lparr>email_l = ''A@x.com'', password_l = ''Wrong1!''\<rparr> (table alice) =
     (Inl (UnauthorizedException ''Invalid credentials''), table alice) \<and>
   ((\<lambda>s. snd (login clock0 env0 \<lparr>email_l = ''A@x.com'', password_l = ''Wrong1!''\<rparr> s)) ^^ 6)
      (table alice) = table alice"
  using login_case_variant_not_recorded
    [where u = alice and w = "table alice" and e = "''A@x.com''" and ev = env0
       and pw = "''Wrong1!''" and clk = clock0 and n = 6]
  by (simp add: table_def alice_def env0_def lower_A_x_com)

text \<open>The lock check leaves emails and passwords as they are.\<close>

lemma isAccountLocked_users:
  "users (snd (isAccountLocked clk em w)) = users w \<or>
   (\<exists>t1 t2. users (snd (isAccountLocked clk em w)) =
      update_where (\<lambda>r. email r = em) (reset_fields t1 t2) (users w))"
  by (auto simp: isAccountLocked_def new_Date_def updateLoginAttempts_reset_users
      split: option.splits)

lemma findUser_after_reset:
  "findUserForAuthentication x (update_where (\<lambda>r. email r = em) (reset_fields t1 t2) rows) =
   map_option (\<lambda>r. if email r = em then reset_fields t1 t2 r else r)
     (findUserForAuthentication x rows)"
  unfolding findUserForAuthentication_def
  by (rule first_row_after_update) (simp add: reset_fields_def)

lemma findUser_after_lock_check_None:
  "findUserForAuthentication x (users w) = None \<Longrightarrow>
   findUserForAuthentication x (users (snd (isAccountLocked clk em w))) = None"
  using isAccountLocked_users[of clk em w] by (auto simp: findUser_after_reset)

lemma findUser_after_lock_check_Some:
  assumes "findUserForAuthentication x (users w) = Some usr"
  shows "\<exists>usr'. findUserForAuthentication x (users (snd (isAccountLocked clk em w))) = Some usr'
           \<and> password usr' = password usr"
  using isAccountLocked_users[of clk em w] assms
  by (auto simp: findUser_after_reset reset_fields_def)

text \<open>
  C5. An attempt that passes the lock check and finds no account for its email, and an
  attempt that passes the lock check and finds an account whose password does not
  verify, fail with the same exception: \<open>UnauthorizedException\<close> with the message
  \<open>Invalid credentials\<close>.
\<close>

theorem login_invalid_credentials_uniform:
  assumes "\<not> fst (isAccountLocked clk (email_l d1) w1)"
    and "findUserForAuthentication (email_l d1) (users w1) = None"
    and "\<not> fst (isAccountLocked clk' (email_l d2) w2)"
    and "findUserForAuthentication (email_l d2) (users w2) = Some usr"
    and "\<not> bcrypt_compare ev' (password_l d2) (password usr)"
  shows "fst (login clk ev d1 w1) = Inl (UnauthorizedException ''Invalid credentials'') \<and>
         fst (login clk' ev' d2 w2) = fst (login clk ev d1 w1)"
proof -
  have a: "fst (login clk ev d1 w1) = Inl (UnauthorizedException ''Invalid credentials'')"
    using assms(1) findUser_after_lock_check_None[OF assms(2), of clk "email_l d1"]
    by (simp add: login_def split_beta)
  obtain usr' where u:
    "findUserForAuthentication (email_l d2) (users (snd (isAccountLocked clk' (email_l d2) w2)))
       = Some usr'" "password usr' = password usr"
    using findUser_after_lock_check_Some[OF assms(4)] by blast
  have b: "fst (login clk' ev' d2 w2) = Inl (UnauthorizedException ''Invalid credentials'')"
    using assms(3,5) u by (simp add: login_def split_beta)
  show ?thesis using a b by simp
qed

theorem login_invalid_credentials_uniform_witness:
  "fst (login clock0 env0 \<lparr>email_l = ''b@x.com'', password_l = ''Right1!''\<rparr> (table alice)) =
     Inl (UnauthorizedException ''Invalid credentials'') \<and>
   fst (login clock0 env0 \<lparr>email_l = ''a@x.com'', password_l = ''Wrong1!''\<rparr> (table alice)) =
   fst (login clock0 env0 \<lparr>email_l = ''b@x.com'', password_l = ''Right1!''\<rparr> (table alice))"
  using login_invalid_credentials_uniform
    [of clock0 "\<lparr>email_l = ''b@x.com'', password_l = ''Right1!''\<rparr>" "table alice"
        clock0 "\<lparr>email_l = ''a@x.com'', password_l = ''Wrong1!''\<rparr>" "table alice"
        alice env0 env0]
  by (simp add: table_def alice_def env0_def isAccountLocked_def findUserForAuthentication_def
      first_row_def select_where_def lower_a_x_com lower_b_x_com)

section \<open>Token refresh and the reset request\<close>



lemma first_row_select_ex:
  "x \<in> k ` set rows \<Longrightarrow> \<exists>u. first_row (select_where (\<lambda>r. k r = x) rows) = Some u"
  by (induction rows) (auto simp: first_row_def select_where_def)

lemma key_clash_same_key: "(\<And>r. k (f r) = k r) \<Longrightarrow> \<not> key_clash k p f rows"
  by (simp add: key_clash_def list_ex_iff)

lemma update_without_keys:
  assumes "i \<in> user_id ` set (users w)"
    and "email_u dto = None" and "username_u dto = None"
  shows "\<exists>x w'. update clk i dto w = (Inr x, w')"
proof -
  obtain t where t: "first_row (select_where (\<lambda>r. user_id r = i) (users w)) = Some t"
    using first_row_select_ex[OF assms(1)] by blast
  have e: "\<And>now r. email (set_fields dto now r) = email r"
    by (simp add: set_fields_def or_keep_def assms(2))
  have u: "\<And>now r. username (set_fields dto now r) = username r"
    by (simp add: set_fields_def or_keep_def assms(3))
  show ?thesis
    by (simp add: update_def findUserById_def t assms(2,3) update_write_def new_Date_def
        update_returning_def key_clash_same_key e u Let_def)
qed

lemma findByEmail_id:
  "findByEmail em rows = Some usr \<Longrightarrow> id_r usr \<in> user_id ` set rows"
  by (auto simp: findByEmail_def transformToResponseDto_def split: option.splits
      dest!: first_row_select_Some)

text \<open>
  C4. For every email, \<open>forgotPassword\<close> answers with the same message object
  whatever the table holds: the run on a table with an account for the email and the
  run on a table without one return equal responses. (The run that finds the account
  also writes the token and its expiry; the other returns at once.)
\<close>

theorem forgotPassword_same_response:
  "fst (forgotPassword clk tok em w) = Inr reset_link_message \<and>
   fst (forgotPassword clk' tok' em w') = fst (forgotPassword clk tok em w)"
proof -
  have one: "fst (forgotPassword c t em v) = Inr reset_link_message" for c t v
  proof (cases "findByEmail em (users v)")
    case None
    then show ?thesis by (simp add: forgotPassword_def)
  next
    case (Some usr)
    let ?v1 = "v\<lparr>ticks := Suc (ticks v)\<rparr>"
    let ?dto = "no_update\<lparr>passwordResetToken_u := Some (Some t),
                  passwordResetExpires_u := Some (Some (c (ticks v) + 3600000))\<rparr>"
    have "id_r usr \<in> user_id ` set (users ?v1)"
      using findByEmail_id[OF Some] by simp
    then obtain x v2 where "update c (id_r usr) ?dto ?v1 = (Inr x, v2)"
      using update_without_keys[of "id_r usr" ?v1 ?dto c] by (auto simp: no_update_def)
    then show ?thesis
      by (simp add: forgotPassword_def Some new_Date_def)
  qed
  show ?thesis by (simp add: one)
qed

theorem forgotPassword_same_response_witness:
  "fst (forgotPassword clock0 ''tok'' ''a@x.com'' (table alice)) = Inr reset_link_message \<and>
   fst (forgotPassword clock0 ''tok'' ''a@x.com'' \<lparr>users = [], ticks = 0\<rparr>) =
   fst (forgotPassword clock0 ''tok'' ''a@x.com'' (table alice))"
  using forgotPassword_same_response
    [of clock0 "''tok''" "''a@x.com''" "table alice" clock0 "''tok''" "\<lparr>users = [], ticks = 0\<rparr>"]
  by simp

section \<open>Uniqueness of email and username\<close>














text \<open>
  Lower-case storage is kept by every function that writes the table, as long as the
  DTOs arrive lower-cased, which their \<open>@Transform\<close> sees to: \<open>create\<close> and
  \<open>update\<close> store the DTO's values as given, and the login attempt tracker writes
  neither column.
\<close>

lemma create_keeps_stored_lower:
  assumes "list_all stored_lower (users w)"
    and "email_c dto = toLowerCase (email_c dto)"
    and "username_c dto = toLowerCase (username_c dto)"
  shows "list_all stored_lower (users (snd (create clk ev newId dto w)))"
proof -
  have "stored_lower (new_row newId h now dto)" for h now
    using assms(2,3) by (simp add: stored_lower_def new_row_def)
  then show ?thesis
    using assms(1)
    by (auto simp: create_def create_insert_def new_Date_def insert_returning_def Let_def
        split: sum.splits)
qed

lemma set_fields_stored_lower:
  assumes "stored_lower r"
    and "email_u dto = map_option toLowerCase (email_u dto)"
    and "username_u dto = map_option toLowerCase (username_u dto)"
  shows "stored_lower (set_fields dto now r)"
proof -
  have e: "or_keep (email_u dto) (email r) = toLowerCase (or_keep (email_u dto) (email r))"
    using assms(1,2) by (cases "email_u dto") (auto simp: or_keep_def stored_lower_def)
  have u: "or_keep (username_u dto) (username r) =
      toLowerCase (or_keep (username_u dto) (username r))"
    using assms(1,3) by (cases "username_u dto") (auto simp: or_keep_def stored_lower_def)
  show ?thesis
    using e u by (simp add: stored_lower_def set_fields_def)
qed

lemma update_keeps_stored_lower:
  assumes "list_all stored_lower (users w)"
    and "email_u dto = map_option toLowerCase (email_u dto)"
    and "username_u dto = map_option toLowerCase (username_u dto)"
  shows "list_all stored_lower (users (snd (update clk i dto w)))"
proof -
  have "list_all stored_lower (update_where p (set_fields dto now) (users w))" for p now
    using assms(1) set_fields_stored_lower[OF _ assms(2,3)]
    by (auto simp: update_where_def list_all_iff)
  then show ?thesis
    using assms(1)
    by (auto simp: update_def update_write_def new_Date_def update_returning_def Let_def
        split: sum.splits)
qed


lemma updateLoginAttempts_keeps_stored_lower:
  assumes "list_all stored_lower (users w)"
  shows "list_all stored_lower (users (updateLoginAttempts clk em reset w))"
proof -
  have "list_all stored_lower (update_where p f (users w))"
    if "\<And>r. email (f r) = email r" "\<And>r. username (f r) = username r" for p f
    using assms that by (auto simp: update_where_def list_all_iff stored_lower_def)
  then show ?thesis
    using assms
    by (auto simp: updateLoginAttempts_def new_Date_def Let_def reset_fields_def
        failure_fields_def split: option.splits)
qed









section \<open>Password reset\<close>

lemma find_reset_user_transformed:
  "find_reset_user clk token (map transformToResponseDto rows) w = (None, w)"
  by (induction rows) (simp_all add: transformToResponseDto_def)

lemma findAll_limit_only:
  "findAll ev (no_query\<lparr>limit_q := Some 1000\<rparr>) rows =
     Inr (paginated
            (map transformToResponseDto
               (take 100 (sql_orderBy ev (''created_at'', ''DESC'') rows)))
            (int (length rows)) 1 100)"
  by (simp add: findAll_def no_query_def validateAndNormalizePagination_def or_default_def
      validateDateRange_def buildUserFilters_def sanitizeSearchTerm_def buildSortCondition_def
      Let_def)

lemma resetPassword_always_fails:
  "resetPassword clk ev token newPassword w =
     (Inl (BadRequestException ''Invalid or expired reset token''), w)"
  by (simp add: resetPassword_def findAll_limit_only paginated_def Let_def
      find_reset_user_transformed)

text \<open>
  C2. \<open>resetPassword\<close> looks for the token among the objects \<open>findAll\<close> returns,
  and those never carry \<open>passwordResetToken\<close>: the select list leaves the column
  out and \<open>transformToResponseDto\<close> drops it. So no token is ever found. Below, the
  account holds the token \<open>tok\<close>, which expires after the clock's first reading, and
  \<open>resetPassword\<close> with that token fails with \<open>Invalid or expired reset token\<close> and
  writes nothing, where the specification has it store the new password and clear the
  token.
\<close>

theorem resetPassword_rejects_valid_token:
  "passwordResetToken alice_reset = Some ''tok'' \<and>
   passwordResetExpires alice_reset = Some 3601000 \<and> clock0 0 < 3601000 \<and>
   resetPassword clock0 env0 ''tok'' ''NewPass1!'' (table alice_reset) =
     (Inl (BadRequestException ''Invalid or expired reset token''), table alice_reset)"
  by (simp add: resetPassword_always_fails alice_reset_def alice_def clock0_def)

section \<open>Lockout: the stored email and its case variants\<close>

text \<open>
  For the email as stored the tracker does what the specification says: a recorded
  failure adds one to \<open>loginAttempts\<close> and, from five on, sets \<open>lockUntil\<close> two
  hours after the clock reading; a login during the lock is refused whatever the
  password.
\<close>

lemma updateLoginAttempts_failure_row:
  assumes "u \<in> set (users w)" and "distinct (map email (users w))"
    and "n = (case loginAttempts u of None \<Rightarrow> 0 | Some k \<Rightarrow> k) + 1"
  shows "first_row (select_where (\<lambda>r. email r = email u)
            (users (updateLoginAttempts clk (email u) False w))) =
         Some (u\<lparr>loginAttempts := Some n,
                 lockUntil := (if n \<ge> 5 then Some (clk (ticks w) + 7200000) else None),
                 updatedAt := (if n \<ge> 5 then clk (Suc (ticks w)) else clk (ticks w))\<rparr>)"
proof -
  have found: "first_row (select_where (\<lambda>r. email r = email u) (users w)) = Some u"
    by (rule first_row_select_key[where k = email, OF assms(2) assms(1)])
  have keep: "\<And>a l t2 r. email (failure_fields a l t2 r) = email r"
    by (simp add: failure_fields_def)
  show ?thesis
    using assms(3)
    by (simp add: updateLoginAttempts_def found new_Date_def maxLoginAttempts_def lockTime_def
        first_row_after_update keep failure_fields_def Let_def)
qed

lemma login_locked_stored_email:
  assumes "u \<in> set (users w)" and "distinct (map email (users w))"
    and "lockUntil u = Some t" and "clk (ticks w) < t"
  shows "login clk ev \<lparr>email_l = email u, password_l = pw\<rparr> w =
           (Inl (UnauthorizedException
              ''Account is temporarily locked due to too many failed login attempts''),
            w\<lparr>ticks := Suc (ticks w)\<rparr>)"
proof -
  have found: "first_row (select_where (\<lambda>r. email r = email u) (users w)) = Some u"
    by (rule first_row_select_key[where k = email, OF assms(2) assms(1)])
  show ?thesis
    using assms(3,4) by (simp add: login_def isAccountLocked_def found new_Date_def)
qed

text \<open>
  C1. The account is locked until \<open>7201000\<close> and the clock reads \<open>1000\<close>. A login
  with the stored email and the right password is refused as locked. A login that
  spells the email \<open>A@x.com\<close> passes the lock check, which looks the email up as
  given and finds no row, is matched to the account by \<open>findUserForAuthentication\<close>,
  which lower-cases it, and returns tokens, where the specification has every attempt
  on a locked account fail as locked.
\<close>

theorem login_case_variant_bypasses_lock:
  "lockUntil alice_locked = Some 7201000 \<and> clock0 0 < 7201000 \<and>
   bcrypt_compare env0 ''Right1!'' (password alice_locked) \<and>
   fst (login clock0 env0 \<lparr>email_l = ''a@x.com'', password_l = ''Right1!''\<rparr> (table alice_locked)) =
     Inl (UnauthorizedException
       ''Account is temporarily locked due to too many failed login attempts'') \<and>
   login clock0 env0 \<lparr>email_l = ''A@x.com'', password_l = ''Right1!''\<rparr> (table alice_locked) =
     (Inr \<lparr>user_a = transformToResponseDto alice_locked, accessToken_a = ''s1:u1'',
           refreshToken_a = ''s2:u1''\<rparr>,
      \<lparr>users = [alice_locked], ticks = 2\<rparr>)"
  by (simp add: login_def isAccountLocked_def table_def alice_locked_def alice_def
      first_row_def select_where_def findUserForAuthentication_def lower_A_x_com lower_a_x_com
      env0_def clock0_def updateLoginAttempts_def new_Date_def update_where_def
      generateTokens_def findOne_def findUserById_def transformToResponseDto_def)

text \<open>
  A successful login with the stored email resets the counter, clears the lock and
  stamps \<open>lastLoginAt\<close> with the clock reading of the reset.
\<close>

lemma update_where_keeps_ids:
  "(\<And>r. user_id (f r) = user_id r) \<Longrightarrow>
   user_id ` set (update_where p f rows) = user_id ` set rows"
  by (induction rows) (simp_all add: update_where_def)

lemma login_success_stored_email:
  assumes "u \<in> set (users w)" and "distinct (map email (users w))"
    and "toLowerCase (email u) = email u"
    and "lockUntil u = None"
    and "bcrypt_compare ev pw (password u)" and "isActive u"
  shows "(\<exists>res. fst (login clk ev \<lparr>email_l = email u, password_l = pw\<rparr> w) = Inr res) \<and>
         first_row (select_where (\<lambda>r. email r = email u)
            (users (snd (login clk ev \<lparr>email_l = email u, password_l = pw\<rparr> w)))) =
         Some (u\<lparr>loginAttempts := Some 0, lockUntil := None,
                 lastLoginAt := Some (clk (ticks w)), updatedAt := clk (Suc (ticks w))\<rparr>)"
proof -
  let ?w2 = "updateLoginAttempts clk (email u) True w"
  have found: "first_row (select_where (\<lambda>r. email r = email u) (users w)) = Some u"
    by (rule first_row_select_key[where k = email, OF assms(2) assms(1)])
  have auth: "findUserForAuthentication (email u) (users w) = Some u"
    by (simp only: findUserForAuthentication_def assms(3) found)
  have lock: "isAccountLocked clk (email u) w = (False, w)"
    by (simp add: isAccountLocked_def found assms(4))
  have keep: "\<And>t1 t2 r. email (reset_fields t1 t2 r) = email r"
    by (simp add: reset_fields_def)
  have "user_id ` set (users ?w2) = user_id ` set (users w)"
    by (simp add: updateLoginAttempts_reset_users update_where_keeps_ids reset_fields_def)
  then have "user_id u \<in> user_id ` set (users ?w2)"
    using assms(1) by simp
  then obtain x where x: "findUserById (user_id u) (users ?w2) = Inr x"
    using first_row_select_ex[of "user_id u" user_id "users ?w2"]
    by (auto simp: findUserById_def)
  have run: "login clk ev \<lparr>email_l = email u, password_l = pw\<rparr> w =
      (Inr \<lparr>user_a = transformToResponseDto x,
            accessToken_a = accessToken (generateTokens ev (user_id u) (email u) (username u) (role u)),
            refreshToken_a = refreshToken (generateTokens ev (user_id u) (email u) (username u) (role u))\<rparr>,
       ?w2)"
    using assms(5,6) by (simp add: login_def lock auth findOne_def x Let_def)
  have row: "first_row (select_where (\<lambda>r. email r = email u) (users ?w2)) =
      Some (u\<lparr>loginAttempts := Some 0, lockUntil := None,
                 lastLoginAt := Some (clk (ticks w)), updatedAt := clk (Suc (ticks w))\<rparr>)"
    by (simp add: updateLoginAttempts_reset_users first_row_after_update keep found
        reset_fields_def)
  show ?thesis
    by (simp only: run fst_conv snd_conv row) simp
qed

text \<open>
  C3. The account has three failed attempts and has never logged in. A login that
  spells the email \<open>A@x.com\<close> succeeds with the right password, and the reset that
  follows updates the rows whose email is \<open>A@x.com\<close>, of which there is none: the
  account's row is returned as it was, with \<open>loginAttempts = 3\<close> and no
  \<open>lastLoginAt\<close>, where the specification has \<open>0\<close> and the time of the login.
\<close>

theorem login_case_variant_success_not_recorded:
  "loginAttempts alice_failed3 = Some 3 \<and> lastLoginAt alice_failed3 = None \<and>
   login clock0 env0 \<lparr>email_l = ''A@x.com'', password_l = ''Right1!''\<rparr> (table alice_failed3) =
     (Inr \<lparr>user_a = transformToResponseDto alice_failed3, accessToken_a = ''s1:u1'',
           refreshToken_a = ''s2:u1''\<rparr>,
      \<lparr>users = [alice_failed3], ticks = 2\<rparr>)"
  by (simp add: login_def isAccountLocked_def table_def alice_failed3_def alice_def
      first_row_def select_where_def findUserForAuthentication_def lower_A_x_com
      env0_def clock0_def updateLoginAttempts_def new_Date_def update_where_def
      generateTokens_def findOne_def findUserById_def transformToResponseDto_def)

end
